theory Spec2Isabelle
  imports Main
begin

section \<open>The values of a parsed JSON document\<close>

text \<open>
  \<^verbatim>\<open>scripts/remove_coordinates.py\<close> works on whatever \<^verbatim>\<open>json.load\<close> returns: \<^verbatim>\<open>None\<close>, a
  \<^verbatim>\<open>bool\<close>, an \<^verbatim>\<open>int\<close>, a \<^verbatim>\<open>float\<close>, a \<^verbatim>\<open>str\<close>, a \<^verbatim>\<open>list\<close> or a \<^verbatim>\<open>dict\<close> with \<^verbatim>\<open>str\<close> keys.
  A \<^verbatim>\<open>dict\<close> keeps its keys in insertion order, so it is an association list (with
  distinct keys when it comes from the parser). Floats are opaque to the script and
  are a type parameter. A \<^verbatim>\<open>str\<close> is a \<^typ>\<open>string\<close>; the script only compares strings
  with the ASCII literals \<^verbatim>\<open>'features'\<close> and \<^verbatim>\<open>'geometry'\<close>. The parser builds a tree:
  no two places of the document share an object.
\<close>

datatype 'f json =
    JNull
  | JBool bool
  | JInt int
  | JFloat 'f
  | JStr string
  | JList "'f json list"
  | JDict "(string \<times> 'f json) list"

text \<open>The exceptions the statements of the script can raise.\<close>

datatype error = AttributeError | TypeError | IndexError | ValueError | FileNotFoundError

subsection \<open>The operations of Python the script applies to these values\<close>

text \<open>\<^verbatim>\<open>d[k] = v\<close> on a \<^verbatim>\<open>dict\<close>: an existing key keeps its place, a new key goes last.\<close>

primrec dict_setitem :: "string \<Rightarrow> 'v \<Rightarrow> (string \<times> 'v) list \<Rightarrow> (string \<times> 'v) list" where
  "dict_setitem k v [] = [(k, v)]"
| "dict_setitem k v (p # ps) = (if fst p = k then (k, v) # ps else p # dict_setitem k v ps)"

text \<open>\<^verbatim>\<open>d.get(k, default)\<close> on a \<^verbatim>\<open>dict\<close>.\<close>

definition dict_get :: "(string \<times> 'v) list \<Rightarrow> string \<Rightarrow> 'v \<Rightarrow> 'v" where
  "dict_get d k dflt = (case map_of d k of Some v \<Rightarrow> v | None \<Rightarrow> dflt)"

text \<open>\<^verbatim>\<open>k in s\<close> on two \<^verbatim>\<open>str\<close>: \<open>k\<close> occurs in \<open>s\<close> as a contiguous run.\<close>

fun str_contains :: "string \<Rightarrow> string \<Rightarrow> bool" where
  "str_contains [] k = (k = [])"
| "str_contains (c # cs) k = (take (length k) (c # cs) = k \<or> str_contains cs k)"

text \<open>
  \<^verbatim>\<open>k in x\<close> for a \<^verbatim>\<open>str\<close> \<open>k\<close>: a key test on a \<^verbatim>\<open>dict\<close>, an element test on a \<^verbatim>\<open>list\<close>
  (only the string \<open>k\<close> itself is equal to \<open>k\<close>), a substring test on a \<^verbatim>\<open>str\<close>, and
  \<^verbatim>\<open>TypeError\<close> on \<^verbatim>\<open>None\<close>, \<^verbatim>\<open>bool\<close>, \<^verbatim>\<open>int\<close> and \<^verbatim>\<open>float\<close>, which are not containers.
\<close>

fun py_in :: "string \<Rightarrow> 'f json \<Rightarrow> error + bool" where
  "py_in k (JDict d) = Inr (k \<in> set (map fst d))"
| "py_in k (JList xs) = Inr (JStr k \<in> set xs)"
| "py_in k (JStr s) = Inr (str_contains s k)"
| "py_in k JNull = Inl TypeError"
| "py_in k (JBool b) = Inl TypeError"
| "py_in k (JInt i) = Inl TypeError"
| "py_in k (JFloat x) = Inl TypeError"

text \<open>
  \<^verbatim>\<open>x[k] = v\<close> for a \<^verbatim>\<open>str\<close> \<open>k\<close>: only a \<^verbatim>\<open>dict\<close> accepts it. A \<^verbatim>\<open>list\<close> wants an integer
  index, a \<^verbatim>\<open>str\<close> and the scalars support no item assignment: \<^verbatim>\<open>TypeError\<close>.
\<close>

fun py_setitem :: "'f json \<Rightarrow> string \<Rightarrow> 'f json \<Rightarrow> error + 'f json" where
  "py_setitem (JDict d) k v = Inr (JDict (dict_setitem k v d))"
| "py_setitem (JList xs) k v = Inl TypeError"
| "py_setitem (JStr s) k v = Inl TypeError"
| "py_setitem JNull k v = Inl TypeError"
| "py_setitem (JBool b) k v = Inl TypeError"
| "py_setitem (JInt i) k v = Inl TypeError"
| "py_setitem (JFloat x) k v = Inl TypeError"

text \<open>
  \<^verbatim>\<open>for feature in x\<close>: the elements of a \<^verbatim>\<open>list\<close>, the keys of a \<^verbatim>\<open>dict\<close>, the
  one-character strings of a \<^verbatim>\<open>str\<close>; the scalars are not iterable.
\<close>

fun py_iter :: "'f json \<Rightarrow> error + 'f json list" where
  "py_iter (JList xs) = Inr xs"
| "py_iter (JDict d) = Inr (map (\<lambda>p. JStr (fst p)) d)"
| "py_iter (JStr s) = Inr (map (\<lambda>c. JStr [c]) s)"
| "py_iter JNull = Inl TypeError"
| "py_iter (JBool b) = Inl TypeError"
| "py_iter (JInt i) = Inl TypeError"
| "py_iter (JFloat x) = Inl TypeError"

section \<open>The stripping pass (lines 29 to 38)\<close>

text \<open>
  \<^verbatim>\<open>
  for feature in features:
      if 'geometry' in feature:
          feature['geometry'] = None
          features_processed += 1
  \<close>
  The loop over the items still to visit, with the counter as its state. It returns
  the items as the loop leaves them and the counter, or the exception that ended it.
\<close>

fun feature_loop :: "'f json list \<Rightarrow> int \<Rightarrow> error + ('f json list \<times> int)" where
  "feature_loop [] features_processed = Inr ([], features_processed)"
| "feature_loop (feature # rest) features_processed =
     (case py_in ''geometry'' feature of
        Inl e \<Rightarrow> Inl e
      | Inr False \<Rightarrow>
          (case feature_loop rest features_processed of
             Inl e \<Rightarrow> Inl e
           | Inr (rest', n) \<Rightarrow> Inr (feature # rest', n))
      | Inr True \<Rightarrow>
          (case py_setitem feature ''geometry'' JNull of
             Inl e \<Rightarrow> Inl e
           | Inr feature' \<Rightarrow>
               (case feature_loop rest (features_processed + 1) of
                  Inl e \<Rightarrow> Inl e
                | Inr (rest', n) \<Rightarrow> Inr (feature' # rest', n))))"

text \<open>
  The loop on the value of \<^verbatim>\<open>features\<close>. The items of a \<^verbatim>\<open>list\<close> are its own elements,
  so what the loop assigns in them shows in the list. The items of a \<^verbatim>\<open>dict\<close> or a
  \<^verbatim>\<open>str\<close> are strings, which the loop cannot change: the value stays as it is.
\<close>

definition strip_features :: "'f json \<Rightarrow> error + ('f json \<times> int)" where
  "strip_features features =
     (case py_iter features of
        Inl e \<Rightarrow> Inl e
      | Inr items \<Rightarrow>
          (case feature_loop items 0 of
             Inl e \<Rightarrow> Inl e
           | Inr (items', n) \<Rightarrow>
               Inr (case features of JList xs \<Rightarrow> JList items' | _ \<Rightarrow> features, n)))"

text \<open>
  \<^verbatim>\<open>
  features = data.get('features', [])
  features_processed = 0
  for feature in features: ...
  data['features'] = features
  \<close>
  Only a \<^verbatim>\<open>dict\<close> has the method \<^verbatim>\<open>get\<close>. The result is the document after the pass and
  \<^verbatim>\<open>features_processed\<close>.
\<close>

definition strip :: "'f json \<Rightarrow> error + ('f json \<times> int)" where
  "strip data =
     (case data of
        JDict d \<Rightarrow>
          (case strip_features (dict_get d ''features'' (JList [])) of
             Inl e \<Rightarrow> Inl e
           | Inr (features, features_processed) \<Rightarrow>
               Inr (JDict (dict_setitem ''features'' features d), features_processed))
      | _ \<Rightarrow> Inl AttributeError)"

section \<open>The script around the pass\<close>

text \<open>
  What the script sees of the outside: the regular files it can name, as a map from
  path to contents, and the lines it has printed. The paths of the script are taken
  as written; on a POSIX system \<^verbatim>\<open>os.path\<close> is \<^verbatim>\<open>posixpath\<close>. The map is keyed by
  the spelling of a path, and one file can have several spellings (\<^verbatim>\<open>a.geojson\<close> and
  \<^verbatim>\<open>./a.geojson\<close>): what a write leaves under the spellings it did not use is not
  what the file system does, so the properties below speak of a written file under
  the path the script wrote it with, and of the other paths only when nothing is
  written at all.
\<close>

record world =
  files :: "string \<rightharpoonup> string"
  stdout :: "string list"

text \<open>\<^verbatim>\<open>sys.exit(n)\<close>, or an exception nobody catches (the interpreter then exits with 1).\<close>

datatype outcome = Exit int | Uncaught error

fun exit_status :: "outcome \<Rightarrow> int" where
  "exit_status (Exit n) = n"
| "exit_status (Uncaught e) = 1"

definition print :: "string \<Rightarrow> world \<Rightarrow> world" where
  "print line w = w\<lparr>stdout := stdout w @ [line]\<rparr>"

text \<open>
  \<^verbatim>\<open>os.path.exists\<close>, on the regular files of the map. A directory is not in the map:
  for the script it exists and \<^verbatim>\<open>open\<close> then fails on it, a case left out here.
\<close>

definition exists :: "world \<Rightarrow> string \<Rightarrow> bool" where
  "exists w path = (files w path \<noteq> None)"

text \<open>
  \<^verbatim>\<open>open(path, 'w')\<close> followed by the write: the contents under that path are replaced.
  A write that the system refuses is left out.
\<close>

definition write_file :: "string \<Rightarrow> string \<Rightarrow> world \<Rightarrow> world" where
  "write_file path text w = w\<lparr>files := (files w)(path \<mapsto> text)\<rparr>"

text \<open>
  \<^verbatim>\<open>posixpath.dirname\<close>: the part up to the last slash, without its trailing slashes
  unless it consists of slashes only.
\<close>

definition dirname :: "string \<Rightarrow> string" where
  "dirname p =
     (let head = rev (dropWhile (\<lambda>c. c \<noteq> CHR ''/'') (rev p))
      in if head \<noteq> [] \<and> \<not> list_all (\<lambda>c. c = CHR ''/'') head
         then rev (dropWhile (\<lambda>c. c = CHR ''/'') (rev head))
         else head)"

text \<open>\<^verbatim>\<open>posixpath.join\<close> of two parts.\<close>

definition join :: "string \<Rightarrow> string \<Rightarrow> string" where
  "join a b =
     (if take 1 b = ''/'' then b
      else if a = [] \<or> last a = CHR ''/'' then a @ b
      else a @ ''/'' @ b)"

text \<open>\<^verbatim>\<open>str\<close> of an \<^verbatim>\<open>int\<close>, as the f-string of line 44 formats the counter.\<close>

fun str_nat :: "nat \<Rightarrow> string" where
  "str_nat n =
     (if n < 10 then [''0123456789'' ! n]
      else str_nat (n div 10) @ [''0123456789'' ! (n mod 10)])"

definition str_int :: "int \<Rightarrow> string" where
  "str_int i = (if i < 0 then ''-'' @ str_nat (nat (- i)) else str_nat (nat i))"

text \<open>
  Lines 6 to 16: the path from the command line, or the default path when it exists,
  or the usage message and \<^verbatim>\<open>sys.exit(1)\<close>.
\<close>

definition select_file :: "string list \<Rightarrow> world \<Rightarrow> (outcome + string) \<times> world" where
  "select_file argv w =
     (if length argv > 1 then (Inr (argv ! 1), w)
      else
        let default_path = ''data/Raw_Demographic_Data.geojson'' in
        if exists w default_path
        then (Inr default_path, print (''Using default file: '' @ default_path) w)
        else
          let w1 = print ''Error: Please provide a GeoJSON file path'' w in
          (case argv of
             [] \<Rightarrow> (Inl (Uncaught IndexError), w1)
           | argv0 # _ \<Rightarrow>
               (Inl (Exit 1),
                print (''Usage: python '' @ argv0 @ '' data/Raw_Demographic_Data.geojson'') w1)))"

text \<open>Lines 41 and 42.\<close>

definition output_file_path :: "string \<Rightarrow> string" where
  "output_file_path file_path =
     (let input_dir = (if dirname file_path = [] then ''.'' else dirname file_path)
      in join input_dir ''Cleaned_Demographics_Data.geojson'')"

text \<open>
  The whole script. \<^verbatim>\<open>json.load\<close> (decoding and parsing the text of the file) and
  \<^verbatim>\<open>json.dump\<close> belong to Python's library and are parameters.
\<close>

definition script ::
  "(string \<Rightarrow> error + 'f json) \<Rightarrow> ('f json \<Rightarrow> string) \<Rightarrow> string list \<Rightarrow> world \<Rightarrow> outcome \<times> world" where
  "script json_load json_dump argv w0 =
     (case select_file argv w0 of
        (Inl out, w1) \<Rightarrow> (out, w1)
      | (Inr file_path, w1) \<Rightarrow>
          if \<not> exists w1 file_path
          then (Exit 1, print (''Error: File not found: '' @ file_path) w1)
          else
            let w2 = print (''Loading GeoJSON file: '' @ file_path) w1 in
            (case files w2 file_path of
               None \<Rightarrow> (Uncaught FileNotFoundError, w2)
             | Some text \<Rightarrow>
                 (case json_load text of
                    Inl e \<Rightarrow> (Uncaught e, w2)
                  | Inr data \<Rightarrow>
                      (case strip data of
                         Inl e \<Rightarrow> (Uncaught e, w2)
                       | Inr (data', features_processed) \<Rightarrow>
                           let w3 = print (''Removing coordinates from '' @
                                      str_int features_processed @ '' features...'') w2;
                               w4 = write_file (output_file_path file_path) (json_dump data') w3;
                               w5 = print (''GeoJSON without coordinates saved to: '' @
                                      output_file_path file_path) w4
                           in (Exit 0, w5)))))"

section \<open>The data model of the specification\<close>

text \<open>A feature is a mapping.\<close>

fun is_feature :: "'f json \<Rightarrow> bool" where
  "is_feature (JDict d) = True"
| "is_feature _ = False"

text \<open>
  A document is a mapping; its key \<^verbatim>\<open>features\<close> is optional and, when present, holds a
  sequence of features.
\<close>

definition is_document :: "'f json \<Rightarrow> bool" where
  "is_document D =
     (case D of
        JDict d \<Rightarrow>
          (case map_of d ''features'' of
             None \<Rightarrow> True
           | Some (JList fs) \<Rightarrow> list_all is_feature fs
           | Some _ \<Rightarrow> False)
      | _ \<Rightarrow> False)"

text \<open>The feature sequence of a document, empty when the key is absent.\<close>

definition features_of :: "'f json \<Rightarrow> 'f json list" where
  "features_of D =
     (case D of
        JDict d \<Rightarrow> (case map_of d ''features'' of Some (JList fs) \<Rightarrow> fs | _ \<Rightarrow> [])
      | _ \<Rightarrow> [])"

text \<open>The fields of a feature: its keys in order, and the value under a key.\<close>

fun keys :: "'f json \<Rightarrow> string list" where
  "keys (JDict d) = map fst d"
| "keys _ = []"

fun field :: "'f json \<Rightarrow> string \<Rightarrow> 'f json option" where
  "field (JDict d) k = map_of d k"
| "field _ k = None"

text \<open>The feature contains a \<^verbatim>\<open>geometry\<close> key.\<close>

definition has_geometry :: "'f json \<Rightarrow> bool" where
  "has_geometry f = (''geometry'' \<in> set (keys f))"

text \<open>
  What the pass is to do with one feature: the value of an existing \<^verbatim>\<open>geometry\<close> key
  becomes the null marker, and a feature without the key is left as it is.
\<close>

definition null_geometry :: "'f json \<Rightarrow> 'f json" where
  "null_geometry f =
     (case f of
        JDict d \<Rightarrow>
          if ''geometry'' \<in> set (map fst d) then JDict (dict_setitem ''geometry'' JNull d) else f
      | _ \<Rightarrow> f)"

text \<open>
  The document the pass is to return: the same mapping with \<^verbatim>\<open>features\<close> set to the
  feature sequence, each feature treated as above.
\<close>

definition stripped :: "'f json \<Rightarrow> 'f json" where
  "stripped D =
     (case D of
        JDict d \<Rightarrow> JDict (dict_setitem ''features'' (JList (map null_geometry (features_of D))) d)
      | _ \<Rightarrow> D)"

section \<open>Sample documents\<close>

text \<open>
  The document of the specification's end-to-end scenario: one feature with a point
  geometry and one without a \<^verbatim>\<open>geometry\<close> key.
\<close>

definition scenario_features :: "unit json list" where
  "scenario_features =
     [JDict [(''type'', JStr ''Feature''),
             (''geometry'', JDict [(''type'', JStr ''Point''),
                                   (''coordinates'', JList [JInt 1, JInt 2])]),
             (''properties'', JDict [(''name'', JStr ''A'')])],
      JDict [(''type'', JStr ''Feature''),
             (''properties'', JDict [(''name'', JStr ''B'')])]]"

definition scenario_fields :: "(string \<times> unit json) list" where
  "scenario_fields =
     [(''type'', JStr ''FeatureCollection''), (''features'', JList scenario_features)]"

definition scenario :: "unit json" where
  "scenario = JDict scenario_fields"

text \<open>A document without the key \<^verbatim>\<open>features\<close>.\<close>

definition bare_fields :: "(string \<times> unit json) list" where
  "bare_fields = [(''type'', JStr ''FeatureCollection'')]"

text \<open>
  A run of the script: the command line names a file that parses to the scenario, and
  a cleaned file from an earlier run is already there.
\<close>

definition sample_argv :: "string list" where
  "sample_argv = [''scripts/remove_coordinates.py'', ''data/tracts.geojson'']"

definition sample_world :: world where
  "sample_world =
     \<lparr>files = [''data/tracts.geojson'' \<mapsto> ''{...}'',
               ''data/Cleaned_Demographics_Data.geojson'' \<mapsto> ''old''],
      stdout = []\<rparr>"

definition sample_load :: "string \<Rightarrow> error + unit json" where
  "sample_load text = (if text = ''{...}'' then Inr scenario else Inl ValueError)"

definition sample_dump :: "unit json \<Rightarrow> string" where
  "sample_dump data = (if data = stripped scenario then ''cleaned'' else ''other'')"


section \<open>Facts about the operations\<close>

lemma dict_setitem_keys: "k \<in> set (map fst d) \<Longrightarrow> map fst (dict_setitem k v d) = map fst d"
  by (induction d) auto

lemma dict_setitem_new: "k \<notin> set (map fst d) \<Longrightarrow> dict_setitem k v d = d @ [(k, v)]"
  by (induction d) auto

lemma dict_setitem_key_in: "k \<in> set (map fst (dict_setitem k v d))"
  by (induction d) auto

lemma map_of_dict_setitem: "map_of (dict_setitem k v d) = (map_of d)(k \<mapsto> v)"
  by (induction d) (auto simp: fun_eq_iff)

lemma dict_setitem_twice: "dict_setitem k v (dict_setitem k w d) = dict_setitem k v d"
  by (induction d) auto

lemma dict_setitem_other_keys:
  "filter (\<lambda>x. x \<noteq> k) (map fst (dict_setitem k v d)) = filter (\<lambda>x. x \<noteq> k) (map fst d)"
  by (induction d) auto

lemma map_of_None_iff_keys: "map_of d k = None \<longleftrightarrow> k \<notin> set (map fst d)"
  by (simp add: map_of_eq_None_iff)

subsection \<open>One feature\<close>

lemma null_geometry_keys: "keys (null_geometry f) = keys f"
  by (cases f) (simp_all add: null_geometry_def dict_setitem_keys)

lemma null_geometry_field:
  "field (null_geometry f) k =
     (if k = ''geometry'' \<and> has_geometry f then Some JNull else field f k)"
  by (cases f) (simp_all add: null_geometry_def has_geometry_def map_of_dict_setitem)

lemma null_geometry_no_key: "\<not> has_geometry f \<Longrightarrow> null_geometry f = f"
  by (cases f) (simp_all add: null_geometry_def has_geometry_def)

lemma has_geometry_null_geometry: "has_geometry (null_geometry f) = has_geometry f"
  by (simp add: has_geometry_def null_geometry_keys)

lemma null_geometry_twice: "null_geometry (null_geometry f) = null_geometry f"
  by (cases f) (simp_all add: null_geometry_def dict_setitem_keys dict_setitem_twice)

lemma null_geometry_comp: "null_geometry \<circ> null_geometry = null_geometry"
  by (rule ext) (simp add: null_geometry_twice)

lemma is_feature_null_geometry: "is_feature (null_geometry f) = is_feature f"
  by (cases f) (simp_all add: null_geometry_def)

subsection \<open>The loop\<close>

lemma feature_loop_Cons_Inr:
  "feature_loop (x # xs) n = Inr (ys, m) \<Longrightarrow>
     \<exists>ys'. ys = null_geometry x # ys' \<and>
       feature_loop xs (n + (if has_geometry x then 1 else 0)) = Inr (ys', m)"
  by (cases x)
    (auto simp: null_geometry_def has_geometry_def split: sum.splits bool.splits if_splits)

lemma feature_loop_Inr:
  "feature_loop xs n = Inr (ys, m) \<Longrightarrow>
     ys = map null_geometry xs \<and> m = n + int (length (filter has_geometry xs))"
proof (induction xs arbitrary: n ys m)
  case Nil
  then show ?case by simp
next
  case (Cons x xs)
  from feature_loop_Cons_Inr [OF Cons.prems] obtain ys' where
    ys: "ys = null_geometry x # ys'" and
    rest: "feature_loop xs (n + (if has_geometry x then 1 else 0)) = Inr (ys', m)"
    by blast
  from Cons.IH [OF rest] ys show ?case by simp
qed

lemma feature_loop_features:
  "list_all is_feature xs \<Longrightarrow>
     feature_loop xs n = Inr (map null_geometry xs, n + int (length (filter has_geometry xs)))"
proof (induction xs arbitrary: n)
  case Nil
  then show ?case by simp
next
  case (Cons x xs)
  then show ?case
    by (cases x) (auto simp: null_geometry_def has_geometry_def)
qed

lemma strip_features_list:
  "list_all is_feature fs \<Longrightarrow>
     strip_features (JList fs) =
       Inr (JList (map null_geometry fs), int (length (filter has_geometry fs)))"
  by (simp add: strip_features_def feature_loop_features)

subsection \<open>The pass on a document of the data model\<close>

lemma strip_document:
  assumes "is_document D"
  shows "strip D = Inr (stripped D, int (length (filter has_geometry (features_of D))))"
proof -
  from assms obtain d where D: "D = JDict d"
    by (cases D) (simp_all add: is_document_def)
  show ?thesis
  proof (cases "map_of d ''features''")
    case None
    then show ?thesis
      by (simp add: D strip_def dict_get_def features_of_def stripped_def strip_features_def)
  next
    case (Some v)
    with assms D obtain fs where v: "v = JList fs" and fs: "list_all is_feature fs"
      by (cases v) (simp_all add: is_document_def)
    from Some v fs show ?thesis
      by (simp add: D strip_def dict_get_def features_of_def stripped_def strip_features_list)
  qed
qed

lemma features_of_stripped:
  "is_document D \<Longrightarrow> features_of (stripped D) = map null_geometry (features_of D)"
  by (cases D) (simp_all add: is_document_def stripped_def features_of_def map_of_dict_setitem)

lemma is_document_stripped: "is_document D \<Longrightarrow> is_document (stripped D)"
  by (cases D)
    (auto simp: is_document_def stripped_def features_of_def map_of_dict_setitem
      list_all_iff is_feature_null_geometry split: option.splits json.splits)

lemma stripped_twice: "is_document D \<Longrightarrow> stripped (stripped D) = stripped D"
  by (cases D)
    (simp_all add: is_document_def stripped_def features_of_def map_of_dict_setitem
      dict_setitem_twice null_geometry_comp)


lemma is_document_scenario: "is_document scenario"
  by (simp add: scenario_def scenario_fields_def scenario_features_def is_document_def)

lemma features_of_scenario: "features_of scenario = scenario_features"
  by (simp add: scenario_def scenario_fields_def features_of_def)

section \<open>The properties of the pass\<close>

text \<open>
  C1. For a document whose \<^verbatim>\<open>features\<close> value is a sequence \<open>F\<close> of features, the pass
  returns, and its count is the number of elements of \<open>F\<close> that contain a \<^verbatim>\<open>geometry\<close>
  key before the call; the elements without the key are not counted.
\<close>

theorem processed_count:
  assumes "map_of d ''features'' = Some (JList F)" and "list_all is_feature F"
  shows "\<exists>D'. strip (JDict d) = Inr (D', int (length (filter has_geometry F)))"
proof -
  from assms have doc: "is_document (JDict d)"
    by (simp add: is_document_def)
  from assms have "features_of (JDict d) = F"
    by (simp add: features_of_def)
  with strip_document [OF doc] show ?thesis by simp
qed

theorem processed_count_witness:
  "map_of scenario_fields ''features'' = Some (JList scenario_features) \<and>
   list_all is_feature scenario_features \<and>
   (\<exists>D'. strip (JDict scenario_fields) = Inr (D', 1))"
proof -
  have h1: "map_of scenario_fields ''features'' = Some (JList scenario_features)"
    by (simp add: scenario_fields_def)
  have h2: "list_all is_feature scenario_features"
    by (simp add: scenario_features_def)
  have "int (length (filter has_geometry scenario_features)) = 1"
    by (simp add: scenario_features_def has_geometry_def)
  with processed_count [OF h1 h2] h1 h2 show ?thesis by simp
qed

text \<open>
  C2. For a document \<open>D\<close> the pass returns a document whose feature sequence has the
  length of that of \<open>D\<close> and holds, at each position, the feature \<open>D\<close> has at that
  position after its treatment: the order of the features is unchanged.
\<close>

theorem features_length_and_order:
  assumes "is_document D"
  shows "\<exists>D' n. strip D = Inr (D', n) \<and>
           length (features_of D') = length (features_of D) \<and>
           (\<forall>i. i < length (features_of D) \<longrightarrow>
                features_of D' ! i = null_geometry (features_of D ! i))"
  using assms by (simp add: strip_document features_of_stripped)

theorem features_length_and_order_witness:
  "is_document scenario \<and>
   (\<exists>D' n. strip scenario = Inr (D', n) \<and> length (features_of D') = 2 \<and>
      features_of D' ! 1 = scenario_features ! 1)"
proof -
  from features_length_and_order [OF is_document_scenario] obtain D' n where
    r: "strip scenario = Inr (D', n)" and
    len: "length (features_of D') = length (features_of scenario)" and
    pos: "\<forall>i. i < length (features_of scenario) \<longrightarrow>
            features_of D' ! i = null_geometry (features_of scenario ! i)"
    by blast
  from pos have "features_of D' ! 1 = null_geometry (scenario_features ! 1)"
    by (simp add: features_of_scenario scenario_features_def)
  then have "features_of D' ! 1 = scenario_features ! 1"
    by (simp add: scenario_features_def null_geometry_def)
  moreover from len have "length (features_of D') = 2"
    by (simp add: features_of_scenario scenario_features_def)
  ultimately show ?thesis using r is_document_scenario by blast
qed

text \<open>
  C3. The pass is idempotent: on a document \<open>D\<close> it returns, and a second pass on the
  document it returned gives the same document and the same count, since a
  \<^verbatim>\<open>geometry\<close> key with the null value is still a \<^verbatim>\<open>geometry\<close> key.
\<close>

theorem strip_idempotent:
  assumes "is_document D"
  shows "\<exists>r. strip D = Inr r \<and> strip (fst r) = Inr r"
proof -
  let ?n = "int (length (filter has_geometry (features_of D)))"
  have first: "strip D = Inr (stripped D, ?n)"
    by (rule strip_document [OF assms])
  have "filter has_geometry (map null_geometry (features_of D)) =
          map null_geometry (filter has_geometry (features_of D))"
    by (simp add: filter_map comp_def has_geometry_null_geometry)
  then have "int (length (filter has_geometry (features_of (stripped D)))) = ?n"
    by (simp add: features_of_stripped [OF assms])
  with strip_document [OF is_document_stripped [OF assms]]
  have "strip (stripped D) = Inr (stripped D, ?n)"
    by (simp add: stripped_twice [OF assms])
  with first show ?thesis by simp
qed

theorem strip_idempotent_witness:
  "is_document scenario \<and> (\<exists>r. strip scenario = Inr r \<and> strip (fst r) = Inr r \<and> snd r = 1)"
proof -
  from strip_idempotent [OF is_document_scenario] obtain r where
    r: "strip scenario = Inr r" "strip (fst r) = Inr r"
    by blast
  have "\<exists>D'. strip scenario = Inr (D', 1)"
    by (simp add: strip_document [OF is_document_scenario] features_of_scenario)
      (simp add: scenario_features_def has_geometry_def)
  with r have "snd r = 1" by auto
  with r is_document_scenario show ?thesis by blast
qed


text \<open>
  C4. For a document \<open>D\<close> the pass returns a document in which every feature that had
  no \<^verbatim>\<open>geometry\<close> key is the feature of \<open>D\<close> at that position, unchanged, and in which
  every feature has the keys of its counterpart, in their order, and the value of its
  counterpart under every key other than \<^verbatim>\<open>geometry\<close>.
\<close>

theorem other_fields_unchanged:
  assumes "is_document D"
  shows "\<exists>D' n. strip D = Inr (D', n) \<and>
           length (features_of D') = length (features_of D) \<and>
           (\<forall>i. i < length (features_of D) \<longrightarrow>
                (\<not> has_geometry (features_of D ! i) \<longrightarrow>
                   features_of D' ! i = features_of D ! i) \<and>
                keys (features_of D' ! i) = keys (features_of D ! i) \<and>
                (\<forall>k. k \<noteq> ''geometry'' \<longrightarrow>
                   field (features_of D' ! i) k = field (features_of D ! i) k))"
  using assms
  by (simp add: strip_document features_of_stripped null_geometry_no_key
      null_geometry_keys null_geometry_field)

theorem other_fields_unchanged_witness:
  "is_document scenario \<and>
   (\<exists>D' n. strip scenario = Inr (D', n) \<and>
      features_of D' ! 1 = scenario_features ! 1 \<and>
      keys (features_of D' ! 0) = [''type'', ''geometry'', ''properties''] \<and>
      field (features_of D' ! 0) ''properties'' = Some (JDict [(''name'', JStr ''A'')]))"
proof -
  from other_fields_unchanged [OF is_document_scenario] obtain D' n where
    r: "strip scenario = Inr (D', n)" and
    frame: "\<forall>i. i < length (features_of scenario) \<longrightarrow>
              (\<not> has_geometry (features_of scenario ! i) \<longrightarrow>
                 features_of D' ! i = features_of scenario ! i) \<and>
              keys (features_of D' ! i) = keys (features_of scenario ! i) \<and>
              (\<forall>k. k \<noteq> ''geometry'' \<longrightarrow>
                 field (features_of D' ! i) k = field (features_of scenario ! i) k)"
    by blast
  have len: "length (features_of scenario) = 2"
    by (simp add: features_of_scenario scenario_features_def)
  have no_key: "\<not> has_geometry (features_of scenario ! 1)"
    by (simp add: features_of_scenario scenario_features_def has_geometry_def)
  from frame len no_key have "features_of D' ! 1 = features_of scenario ! 1"
    by simp
  then have second: "features_of D' ! 1 = scenario_features ! 1"
    by (simp add: features_of_scenario)
  from frame len have "keys (features_of D' ! 0) = keys (features_of scenario ! 0)"
    by simp
  then have ks: "keys (features_of D' ! 0) = [''type'', ''geometry'', ''properties'']"
    by (simp add: features_of_scenario scenario_features_def)
  from frame len have
    "field (features_of D' ! 0) ''properties'' = field (features_of scenario ! 0) ''properties''"
    by simp
  then have props:
    "field (features_of D' ! 0) ''properties'' = Some (JDict [(''name'', JStr ''A'')])"
    by (simp add: features_of_scenario scenario_features_def)
  from r second ks props is_document_scenario show ?thesis by blast
qed

text \<open>
  C5. For a document that lacks the key \<^verbatim>\<open>features\<close> the pass takes the feature sequence
  to be empty: it returns the count 0 (and the document with \<^verbatim>\<open>features\<close> added last,
  holding the empty sequence).
\<close>

theorem missing_features_zero:
  assumes "''features'' \<notin> set (map fst d)"
  shows "strip (JDict d) = Inr (JDict (d @ [(''features'', JList [])]), 0)"
proof -
  from assms have "map_of d ''features'' = None"
    by (simp add: map_of_None_iff_keys)
  then show ?thesis
    by (simp add: strip_def dict_get_def strip_features_def dict_setitem_new [OF assms])
qed

theorem missing_features_zero_witness:
  "''features'' \<notin> set (map fst bare_fields) \<and>
   strip (JDict bare_fields) =
     Inr (JDict [(''type'', JStr ''FeatureCollection''), (''features'', JList [])], 0)"
proof -
  have h: "''features'' \<notin> set (map fst bare_fields)"
    by (simp add: bare_fields_def)
  from missing_features_zero [OF h] h show ?thesis
    by (simp add: bare_fields_def)
qed

text \<open>
  C6. The pass raises nothing on a document of the data model: for a mapping whose
  \<^verbatim>\<open>features\<close> key is missing or holds a sequence of mappings, with or without a
  \<^verbatim>\<open>geometry\<close> key, it returns a document and a count.
\<close>

theorem strip_never_raises:
  assumes "is_document D"
  shows "\<exists>D' n. strip D = Inr (D', n)"
  using strip_document [OF assms] by blast

theorem strip_never_raises_witness:
  "is_document scenario \<and> is_document (JDict bare_fields) \<and>
   (\<exists>D' n. strip scenario = Inr (D', n)) \<and> (\<exists>D' n. strip (JDict bare_fields) = Inr (D', n))"
proof -
  have bare: "is_document (JDict bare_fields)"
    by (simp add: is_document_def bare_fields_def)
  from strip_never_raises [OF is_document_scenario] strip_never_raises [OF bare]
    is_document_scenario bare
  show ?thesis by blast
qed

text \<open>
  C9. For a document \<open>D\<close> the pass returns a document in which every feature that
  contained a \<^verbatim>\<open>geometry\<close> key in \<open>D\<close> still contains the key, with the null value: the
  key is not deleted.
\<close>

theorem geometry_key_kept_null:
  assumes "is_document D"
  shows "\<exists>D' n. strip D = Inr (D', n) \<and>
           length (features_of D') = length (features_of D) \<and>
           (\<forall>i. i < length (features_of D) \<longrightarrow> has_geometry (features_of D ! i) \<longrightarrow>
                has_geometry (features_of D' ! i) \<and>
                field (features_of D' ! i) ''geometry'' = Some JNull)"
  using assms
  by (simp add: strip_document features_of_stripped has_geometry_null_geometry
      null_geometry_field)

theorem geometry_key_kept_null_witness:
  "is_document scenario \<and> has_geometry (scenario_features ! 0) \<and>
   (\<exists>D' n. strip scenario = Inr (D', n) \<and>
      has_geometry (features_of D' ! 0) \<and>
      field (features_of D' ! 0) ''geometry'' = Some JNull)"
proof -
  from geometry_key_kept_null [OF is_document_scenario] obtain D' n where
    r: "strip scenario = Inr (D', n)" and
    kept: "\<forall>i. i < length (features_of scenario) \<longrightarrow> has_geometry (features_of scenario ! i) \<longrightarrow>
             has_geometry (features_of D' ! i) \<and>
             field (features_of D' ! i) ''geometry'' = Some JNull"
    by blast
  have len: "0 < length (features_of scenario)"
    by (simp add: features_of_scenario scenario_features_def)
  have key: "has_geometry (scenario_features ! 0)"
    by (simp add: scenario_features_def has_geometry_def)
  from kept len key have
    "has_geometry (features_of D' ! 0) \<and> field (features_of D' ! 0) ''geometry'' = Some JNull"
    by (simp add: features_of_scenario)
  with r key is_document_scenario show ?thesis by blast
qed

text \<open>
  C10. The document the pass returns for a document of the data model always has the
  key \<^verbatim>\<open>features\<close>: when the input lacked it, the key is added, last, with the empty
  sequence. Every other top-level key keeps its value, and these keys keep their order.
\<close>

theorem features_key_always_set:
  assumes "is_document (JDict d)"
  shows "\<exists>d' n. strip (JDict d) = Inr (JDict d', n) \<and>
           ''features'' \<in> set (map fst d') \<and>
           (''features'' \<notin> set (map fst d) \<longrightarrow> d' = d @ [(''features'', JList [])]) \<and>
           (\<forall>k. k \<noteq> ''features'' \<longrightarrow> map_of d' k = map_of d k) \<and>
           filter (\<lambda>k. k \<noteq> ''features'') (map fst d') =
             filter (\<lambda>k. k \<noteq> ''features'') (map fst d)"
proof -
  let ?fs = "JList (map null_geometry (features_of (JDict d)))"
  let ?d' = "dict_setitem ''features'' ?fs d"
  have "strip (JDict d) = Inr (JDict ?d', int (length (filter has_geometry (features_of (JDict d)))))"
    using strip_document [OF assms] by (simp add: stripped_def)
  moreover have "''features'' \<in> set (map fst ?d')"
    by (rule dict_setitem_key_in)
  moreover have "''features'' \<notin> set (map fst d) \<longrightarrow> ?d' = d @ [(''features'', JList [])]"
  proof
    assume absent: "''features'' \<notin> set (map fst d)"
    then have "map_of d ''features'' = None"
      by (simp add: map_of_None_iff_keys)
    then have "features_of (JDict d) = []"
      by (simp add: features_of_def)
    with absent show "?d' = d @ [(''features'', JList [])]"
      by (simp add: dict_setitem_new)
  qed
  moreover have "\<forall>k. k \<noteq> ''features'' \<longrightarrow> map_of ?d' k = map_of d k"
    by (simp add: map_of_dict_setitem)
  moreover have "filter (\<lambda>k. k \<noteq> ''features'') (map fst ?d') =
      filter (\<lambda>k. k \<noteq> ''features'') (map fst d)"
    by (rule dict_setitem_other_keys)
  ultimately show ?thesis by blast
qed

theorem features_key_always_set_witness:
  "is_document (JDict bare_fields) \<and> ''features'' \<notin> set (map fst bare_fields) \<and>
   (\<exists>d' n. strip (JDict bare_fields) = Inr (JDict d', n) \<and>
      d' = [(''type'', JStr ''FeatureCollection''), (''features'', JList [])] \<and>
      map_of d' ''type'' = map_of bare_fields ''type'')"
proof -
  have bare: "is_document (JDict bare_fields)"
    by (simp add: is_document_def bare_fields_def)
  have absent: "''features'' \<notin> set (map fst bare_fields)"
    by (simp add: bare_fields_def)
  from features_key_always_set [OF bare] obtain d' n where
    r: "strip (JDict bare_fields) = Inr (JDict d', n)" and
    new: "''features'' \<notin> set (map fst bare_fields) \<longrightarrow> d' = bare_fields @ [(''features'', JList [])]" and
    others: "\<forall>k. k \<noteq> ''features'' \<longrightarrow> map_of d' k = map_of bare_fields k"
    by blast
  from new absent have "d' = [(''type'', JStr ''FeatureCollection''), (''features'', JList [])]"
    by (simp add: bare_fields_def)
  moreover from others have "map_of d' ''type'' = map_of bare_fields ''type''"
    by simp
  ultimately show ?thesis using r bare absent by blast
qed


section \<open>The properties of the script\<close>

lemma files_print: "files (print line w) = files w"
  by (simp add: print_def)

lemma stdout_print: "stdout (print line w) = stdout w @ [line]"
  by (simp add: print_def)

lemma files_select_file: "select_file argv w = (r, w1) \<Longrightarrow> files w1 = files w"
  by (auto simp: select_file_def Let_def files_print split: if_splits list.splits)

lemma select_file_argv: "1 < length argv \<Longrightarrow> select_file argv w = (Inr (argv ! 1), w)"
  by (simp add: select_file_def)

text \<open>The script writes a file only on the path that ends with \<^verbatim>\<open>sys.exit(0)\<close>.\<close>

lemma files_unless_exit_0:
  assumes "fst (script json_load json_dump argv w) \<noteq> Exit 0"
  shows "files (snd (script json_load json_dump argv w)) = files w"
proof (cases "select_file argv w")
  case (Pair r w1)
  note sel = files_select_file [OF Pair]
  show ?thesis
  proof (cases r)
    case (Inl out)
    with Pair sel show ?thesis by (simp add: script_def)
  next
    case (Inr file_path)
    with Pair sel assms show ?thesis
      by (auto simp: script_def Let_def files_print exists_def
          split: if_splits option.splits sum.splits prod.splits)
  qed
qed

lemma dirname_examples:
  "dirname ''data/Raw_Demographic_Data.geojson'' = ''data''"
  "dirname ''tracts.geojson'' = ''''"
  "dirname ''/tracts.geojson'' = ''/''"
  "dirname ''a/b//tracts.geojson'' = ''a/b''"
  by (simp_all add: dirname_def)

lemma output_file_path_examples:
  "output_file_path ''data/Raw_Demographic_Data.geojson'' = ''data/Cleaned_Demographics_Data.geojson''"
  "output_file_path ''tracts.geojson'' = ''./Cleaned_Demographics_Data.geojson''"
  "output_file_path ''/tracts.geojson'' = ''/Cleaned_Demographics_Data.geojson''"
  by (simp_all add: output_file_path_def dirname_def join_def)

text \<open>
  C7. When the script has read and stripped the document, it exits with 0, and the
  path made of the directory of the input path (or \<^verbatim>\<open>.\<close> when that is empty) joined
  with \<^verbatim>\<open>Cleaned_Demographics_Data.geojson\<close> holds the dumped document, whatever it
  held before; the last line printed names that path.
\<close>

theorem output_file_named_and_overwritten:
  assumes "select_file argv w = (Inr file_path, w1)"
    and "files w file_path = Some text"
    and "json_load text = Inr data"
    and "strip data = Inr (data', n)"
  shows "fst (script json_load json_dump argv w) = Exit 0 \<and>
         files (snd (script json_load json_dump argv w))
           (join (if dirname file_path = [] then ''.'' else dirname file_path)
              ''Cleaned_Demographics_Data.geojson'') = Some (json_dump data') \<and>
         last (stdout (snd (script json_load json_dump argv w))) =
           ''GeoJSON without coordinates saved to: '' @
           join (if dirname file_path = [] then ''.'' else dirname file_path)
             ''Cleaned_Demographics_Data.geojson''"
  using assms files_select_file [OF assms(1)]
  by (simp add: script_def Let_def exists_def files_print stdout_print write_file_def
      output_file_path_def)

theorem output_file_named_and_overwritten_witness:
  "select_file sample_argv sample_world = (Inr ''data/tracts.geojson'', sample_world) \<and>
   files sample_world ''data/tracts.geojson'' = Some ''{...}'' \<and>
   sample_load ''{...}'' = Inr scenario \<and>
   strip scenario = Inr (stripped scenario, 1) \<and>
   files sample_world ''data/Cleaned_Demographics_Data.geojson'' = Some ''old'' \<and>
   fst (script sample_load sample_dump sample_argv sample_world) = Exit 0 \<and>
   files (snd (script sample_load sample_dump sample_argv sample_world))
     ''data/Cleaned_Demographics_Data.geojson'' = Some ''cleaned'' \<and>
   last (stdout (snd (script sample_load sample_dump sample_argv sample_world))) =
     ''GeoJSON without coordinates saved to: data/Cleaned_Demographics_Data.geojson''"
proof -
  have h1: "select_file sample_argv sample_world = (Inr ''data/tracts.geojson'', sample_world)"
    by (simp add: select_file_def sample_argv_def)
  have h2: "files sample_world ''data/tracts.geojson'' = Some ''{...}''"
    by (simp add: sample_world_def)
  have h3: "sample_load ''{...}'' = Inr scenario"
    by (simp add: sample_load_def)
  have "int (length (filter has_geometry scenario_features)) = 1"
    by (simp add: scenario_features_def has_geometry_def)
  then have h4: "strip scenario = Inr (stripped scenario, 1)"
    by (simp add: strip_document [OF is_document_scenario] features_of_scenario)
  have old: "files sample_world ''data/Cleaned_Demographics_Data.geojson'' = Some ''old''"
    by (simp add: sample_world_def)
  have dir: "dirname ''data/tracts.geojson'' = ''data''"
    by (simp add: dirname_def)
  have out: "join ''data'' ''Cleaned_Demographics_Data.geojson'' =
      ''data/Cleaned_Demographics_Data.geojson''"
    by (simp add: join_def)
  from output_file_named_and_overwritten
    [where json_load = sample_load and json_dump = sample_dump, OF h1 h2 h3 h4]
  have "fst (script sample_load sample_dump sample_argv sample_world) = Exit 0 \<and>
        files (snd (script sample_load sample_dump sample_argv sample_world))
          ''data/Cleaned_Demographics_Data.geojson'' = Some ''cleaned'' \<and>
        last (stdout (snd (script sample_load sample_dump sample_argv sample_world))) =
          ''GeoJSON without coordinates saved to: data/Cleaned_Demographics_Data.geojson''"
    by (simp add: dir out sample_dump_def)
  with h1 h2 h3 h4 old show ?thesis
    by simp
qed

text \<open>
  C8. When the input path names no file, the script prints
  \<^verbatim>\<open>Error: File not found:\<close> with the path and exits with status 1, and the files are
  those of the start: nothing is written.
\<close>

theorem missing_input_file:
  assumes "select_file argv w = (Inr file_path, w1)"
    and "files w file_path = None"
  shows "fst (script json_load json_dump argv w) = Exit 1 \<and>
         exit_status (fst (script json_load json_dump argv w)) \<noteq> 0 \<and>
         stdout (snd (script json_load json_dump argv w)) =
           stdout w1 @ [''Error: File not found: '' @ file_path] \<and>
         files (snd (script json_load json_dump argv w)) = files w"
  using assms files_select_file [OF assms(1)]
  by (simp add: script_def exists_def files_print stdout_print)

theorem missing_input_file_witness:
  "select_file [''scripts/remove_coordinates.py'', ''nowhere.geojson''] sample_world =
     (Inr ''nowhere.geojson'', sample_world) \<and>
   files sample_world ''nowhere.geojson'' = None \<and>
   script sample_load sample_dump [''scripts/remove_coordinates.py'', ''nowhere.geojson'']
     sample_world =
     (Exit 1, sample_world\<lparr>stdout := [''Error: File not found: nowhere.geojson'']\<rparr>)"
proof -
  let ?argv = "[''scripts/remove_coordinates.py'', ''nowhere.geojson'']"
  have h1: "select_file ?argv sample_world = (Inr ''nowhere.geojson'', sample_world)"
    by (simp add: select_file_def)
  have h2: "files sample_world ''nowhere.geojson'' = None"
    by (simp add: sample_world_def)
  from missing_input_file [OF h1 h2, of sample_load sample_dump]
  have "fst (script sample_load sample_dump ?argv sample_world) = Exit 1"
    and "stdout (snd (script sample_load sample_dump ?argv sample_world)) =
           [''Error: File not found: nowhere.geojson'']"
    and "files (snd (script sample_load sample_dump ?argv sample_world)) = files sample_world"
    by (simp_all add: sample_world_def)
  then have "script sample_load sample_dump ?argv sample_world =
      (Exit 1, sample_world\<lparr>stdout := [''Error: File not found: nowhere.geojson'']\<rparr>)"
    by (cases "script sample_load sample_dump ?argv sample_world") simp
  with h1 h2 show ?thesis by simp
qed


section \<open>Outside the data model\<close>

text \<open>
  The pass has no check of its own. Whenever it returns on a \<^verbatim>\<open>features\<close> list, the
  result is the one described above, also when the list holds items that are not
  mappings; but such items can end it with an exception, and so can a document that
  is not a mapping.
\<close>

lemma strip_Inr_list:
  assumes "strip (JDict d) = Inr (D', n)" and "map_of d ''features'' = Some (JList fs)"
  shows "D' = JDict (dict_setitem ''features'' (JList (map null_geometry fs)) d) \<and>
         n = int (length (filter has_geometry fs))"
proof -
  from assms obtain ys where loop: "feature_loop fs 0 = Inr (ys, n)"
    and D': "D' = JDict (dict_setitem ''features'' (JList ys) d)"
    by (auto simp: strip_def dict_get_def strip_features_def split: sum.splits prod.splits)
  from feature_loop_Inr [OF loop] D' show ?thesis by simp
qed

lemma strip_not_a_mapping: "strip (JList xs) = Inl AttributeError"
  by (simp add: strip_def)

lemma strip_null_feature: "strip (JDict [(''features'', JList [JNull])]) = Inl TypeError"
  by (simp add: strip_def dict_get_def strip_features_def)

lemma strip_features_not_iterable: "strip (JDict [(''features'', JInt 3)]) = Inl TypeError"
  by (simp add: strip_def dict_get_def strip_features_def)

lemma strip_string_feature:
  "strip (JDict [(''features'', JList [JStr ''no geometry here''])]) = Inl TypeError"
  "strip (JDict [(''features'', JList [JStr ''nothing''])]) =
     Inr (JDict [(''features'', JList [JStr ''nothing''])], 0)"
  by (simp_all add: strip_def dict_get_def strip_features_def)

text \<open>
  A second pass repeats the first wherever the first returns, on any value: the items
  that made the first pass return make the second return.
\<close>

lemma feature_loop_again:
  "feature_loop xs n = Inr (ys, m) \<Longrightarrow> feature_loop ys n = Inr (ys, m)"
proof (induction xs arbitrary: n ys m)
  case Nil
  then show ?case by simp
next
  case (Cons x xs)
  from feature_loop_Cons_Inr [OF Cons.prems] obtain ys' where
    ys: "ys = null_geometry x # ys'" and
    rest: "feature_loop xs (n + (if has_geometry x then 1 else 0)) = Inr (ys', m)"
    by blast
  from Cons.prems have ok: "py_in ''geometry'' x = Inr (has_geometry x)"
    by (cases x) (auto simp: has_geometry_def split: sum.splits bool.splits)
  from Cons.prems have feat: "has_geometry x \<Longrightarrow> is_feature x"
    by (cases x) (auto simp: has_geometry_def)
  show ?case
  proof (cases "has_geometry x")
    case True
    with feat obtain d where x: "x = JDict d" by (cases x) simp_all
    from True x Cons.IH [OF rest] ys show ?thesis
      by (simp add: null_geometry_def has_geometry_def dict_setitem_keys dict_setitem_twice)
  next
    case False
    with ok Cons.IH [OF rest] ys show ?thesis
      by (simp add: null_geometry_no_key)
  qed
qed

lemma strip_features_again:
  assumes "strip_features f = Inr (f', n)"
  shows "strip_features f' = Inr (f', n)"
proof (cases f)
  case (JList xs)
  with assms obtain ys where "feature_loop xs 0 = Inr (ys, n)" and "f' = JList ys"
    by (auto simp: strip_features_def split: sum.splits prod.splits)
  then show ?thesis
    by (simp add: strip_features_def feature_loop_again)
qed (use assms in \<open>auto simp: strip_features_def split: sum.splits prod.splits\<close>)

lemma strip_again:
  assumes "strip D = Inr r"
  shows "strip (fst r) = Inr r"
proof -
  from assms obtain d where D: "D = JDict d"
    by (cases D) (simp_all add: strip_def)
  from assms D obtain f' n where
    sf: "strip_features (dict_get d ''features'' (JList [])) = Inr (f', n)" and
    r: "r = (JDict (dict_setitem ''features'' f' d), n)"
    by (auto simp: strip_def split: sum.splits prod.splits)
  from strip_features_again [OF sf] r show ?thesis
    by (simp add: strip_def dict_get_def map_of_dict_setitem dict_setitem_twice)
qed

text \<open>
  Without an argument and without the default file the script prints the usage
  message and exits with 1 before it reads or writes anything.
\<close>

lemma missing_default_file:
  assumes "files w ''data/Raw_Demographic_Data.geojson'' = None"
  shows "script json_load json_dump [argv0] w =
     (Exit 1,
      print (''Usage: python '' @ argv0 @ '' data/Raw_Demographic_Data.geojson'')
        (print ''Error: Please provide a GeoJSON file path'' w))"
  using assms by (simp add: script_def select_file_def exists_def)

end
